theory Spec2Isabelle
  imports Main "HOL-Library.AList"
begin

section \<open>The knowledge-graph server (mcp/knowledge-graph/server.py)\<close>

text \<open>
  The server keeps one process-wide dictionary \<open>knowledge_graph\<close> with two entries:
  \<open>"entities"\<close>, a dict from entity id to a record, and \<open>"relations"\<close>, a list of
  records. The function \<open>call_tool(name, arguments)\<close> branches on the tool name. Each
  branch is embedded below as a function from the state to a result and the new state;
  \<open>call_tool\<close> itself does the dispatch and the reads of the argument bag.

  Conventions of the embedding:
  \<^item> A Python dict is an association list in insertion order. Assigning to a key
    that is present replaces its value in place, assigning to a new key appends:
    this is \<open>AList.update\<close>; a lookup is \<open>map_of\<close>.
  \<^item> A Python set is a list that \<open>set_add\<close> keeps free of duplicates. The order in
    which Python iterates over a set is not fixed by the language; the model
    iterates in insertion order, and the theorems speak of the elements only.
  \<^item> The argument bag holds values of the types of the tool's input schema
    (strings, integers for the numbers, a dict for the properties); a key may be
    absent. \<open>arguments[k]\<close> raises KeyError on an absent key, \<open>arguments.get(k, d)\<close>
    gives the default.
  \<^item> \<open>datetime.now().isoformat()\<close> is an input of each call (\<open>now\<close>).
  \<^item> The text of a confirmation or of an error is the string the source builds;
    the results that the source serialises with \<open>json.dumps\<close> are kept as data.
  \<^item> \<open>str.lower\<close> is modelled on ASCII letters.
\<close>

subsection \<open>Data\<close>

datatype json = JNull | JBool bool | JNum int | JStr string
  | JList "json list" | JObj "(string \<times> json) list"

type_synonym props = "(string \<times> json) list"

record entity_data =
  ent_type :: string
  ent_properties :: props
  ent_created_at :: string

record relation_data =
  rel_from :: string
  rel_relation :: string
  rel_to :: string
  rel_properties :: props
  rel_created_at :: string

record knowledge_graph =
  entities :: "(string \<times> entity_data) list"
  relations :: "relation_data list"

definition empty_graph :: knowledge_graph where
  "empty_graph = \<lparr>entities = [], relations = []\<rparr>"

datatype query_match =
  EntityMatch string string props
  | RelationMatch string string string

record stats =
  entities_count :: nat
  relations_count :: nat
  entity_types :: "(string \<times> nat) list"
  relation_types :: "(string \<times> nat) list"

datatype response =
  Text string
  | QueryResponse string "query_match list"
  | NeighborsResponse string int "(string \<times> string) list"
  | StatsResponse stats

datatype py_error = KeyError string | ValueError string

record arguments =
  arg_entity :: "string option"
  arg_type :: "string option"
  arg_properties :: "props option"
  arg_from_entity :: "string option"
  arg_relation :: "string option"
  arg_to_entity :: "string option"
  arg_query :: "string option"
  arg_query_type :: "string option"
  arg_limit :: "int option"
  arg_depth :: "int option"

subsection \<open>Python primitives\<close>

definition contains_key :: "'k \<Rightarrow> ('k \<times> 'v) list \<Rightarrow> bool" where
  "contains_key k d = (map_of d k \<noteq> None)"

definition get_default :: "'a option \<Rightarrow> 'a \<Rightarrow> 'a" where
  "get_default v d = (case v of None \<Rightarrow> d | Some x \<Rightarrow> x)"

definition set_add :: "'a \<Rightarrow> 'a list \<Rightarrow> 'a list" where
  "set_add x s = (if x \<in> set s then s else s @ [x])"

definition set_discard :: "'a \<Rightarrow> 'a list \<Rightarrow> 'a list" where
  "set_discard x s = removeAll x s"

definition lower_char :: "char \<Rightarrow> char" where
  "lower_char c =
     get_default
       (map_of (zip ''ABCDEFGHIJKLMNOPQRSTUVWXYZ'' ''abcdefghijklmnopqrstuvwxyz'') c) c"

definition lower :: "string \<Rightarrow> string" where
  "lower s = map lower_char s"

fun is_prefix :: "string \<Rightarrow> string \<Rightarrow> bool" where
  "is_prefix [] s = True"
| "is_prefix (c # q) [] = False"
| "is_prefix (c # q) (d # s) = (c = d \<and> is_prefix q s)"

text \<open>\<open>q in s\<close> on strings: \<open>q\<close> occurs in \<open>s\<close> as a contiguous substring.\<close>

fun str_in :: "string \<Rightarrow> string \<Rightarrow> bool" where
  "str_in q [] = (q = [])"
| "str_in q (c # s) = (is_prefix q (c # s) \<or> str_in q s)"

definition quoted :: "string \<Rightarrow> string" where
  "quoted s = [CHR 0x27] @ s @ [CHR 0x27]"

subsection \<open>kg_add_entity\<close>

definition added_entity_text :: "string \<Rightarrow> string \<Rightarrow> string" where
  "added_entity_text entity_id ty =
     ''Added entity '' @ quoted entity_id @ '' of type '' @ quoted ty"

definition kg_add_entity ::
  "string \<Rightarrow> string \<Rightarrow> props option \<Rightarrow> string \<Rightarrow> knowledge_graph
     \<Rightarrow> response \<times> knowledge_graph" where
  "kg_add_entity entity_id ty properties now g =
     (let entity_data = \<lparr>ent_type = ty,
                         ent_properties = get_default properties [],
                         ent_created_at = now\<rparr>
      in (Text (added_entity_text entity_id (ent_type entity_data)),
          g\<lparr>entities := AList.update entity_id entity_data (entities g)\<rparr>))"

subsection \<open>kg_add_relation\<close>

definition not_found_add_first_text :: "string \<Rightarrow> string" where
  "not_found_add_first_text e =
     ''Error: Entity '' @ quoted e @ '' not found. Add it first with kg_add_entity.''"

definition added_relation_text :: "string \<Rightarrow> string \<Rightarrow> string \<Rightarrow> string" where
  "added_relation_text from_entity relation to_entity =
     ''Added relation: '' @ from_entity @ '' --['' @ relation @ '']--> '' @ to_entity"

definition kg_add_relation ::
  "string \<Rightarrow> string \<Rightarrow> string \<Rightarrow> props option \<Rightarrow> string \<Rightarrow> knowledge_graph
     \<Rightarrow> response \<times> knowledge_graph" where
  "kg_add_relation from_entity relation to_entity properties now g =
     (if \<not> contains_key from_entity (entities g)
      then (Text (not_found_add_first_text from_entity), g)
      else if \<not> contains_key to_entity (entities g)
      then (Text (not_found_add_first_text to_entity), g)
      else
        (let relation_data = \<lparr>rel_from = from_entity,
                              rel_relation = relation,
                              rel_to = to_entity,
                              rel_properties = get_default properties [],
                              rel_created_at = now\<rparr>
         in (Text (added_relation_text from_entity relation to_entity),
             g\<lparr>relations := relations g @ [relation_data]\<rparr>)))"

subsection \<open>kg_query\<close>

text \<open>
  Both loops append a match and only then compare the length of the results with
  the limit, leaving the loop when the limit is reached.
\<close>

fun query_entities ::
  "string \<Rightarrow> int \<Rightarrow> (string \<times> entity_data) list \<Rightarrow> query_match list
     \<Rightarrow> query_match list" where
  "query_entities query limit [] results = results"
| "query_entities query limit ((entity_id, entity_data) # rest) results =
     (if str_in query (lower entity_id) \<or> str_in query (lower (ent_type entity_data))
      then
        (let results' = results @
               [EntityMatch entity_id (ent_type entity_data) (ent_properties entity_data)]
         in if int (length results') \<ge> limit then results'
            else query_entities query limit rest results')
      else query_entities query limit rest results)"

fun query_relations ::
  "string \<Rightarrow> int \<Rightarrow> relation_data list \<Rightarrow> query_match list \<Rightarrow> query_match list" where
  "query_relations query limit [] results = results"
| "query_relations query limit (rel # rest) results =
     (if str_in query (lower (rel_relation rel))
      then
        (let results' = results @
               [RelationMatch (rel_from rel) (rel_relation rel) (rel_to rel)]
         in if int (length results') \<ge> limit then results'
            else query_relations query limit rest results')
      else query_relations query limit rest results)"

definition kg_query ::
  "string \<Rightarrow> string option \<Rightarrow> int option \<Rightarrow> knowledge_graph
     \<Rightarrow> response \<times> knowledge_graph" where
  "kg_query query0 query_type0 limit0 g =
     (let query = lower query0;
          query_type = get_default query_type0 ''entity'';
          limit = get_default limit0 10;
          results =
            (if query_type = ''entity'' then query_entities query limit (entities g) []
             else if query_type = ''relation''
             then query_relations query limit (relations g) []
             else [])
      in (QueryResponse query0 results, g))"

subsection \<open>kg_get_neighbors\<close>

definition not_found_text :: "string \<Rightarrow> string" where
  "not_found_text e = ''Error: Entity '' @ quoted e @ '' not found''"

text \<open>
  One pass of the inner loop over the relation list, for a fixed \<open>current_level\<close>;
  the pair is \<open>(neighbors, next_level)\<close>.
\<close>

fun scan_relations ::
  "relation_data list \<Rightarrow> string list \<Rightarrow> string list \<times> string list
     \<Rightarrow> string list \<times> string list" where
  "scan_relations [] current_level (neighbors, next_level) = (neighbors, next_level)"
| "scan_relations (rel # rest) current_level (neighbors, next_level) =
     (let (neighbors1, next_level1) =
            (if rel_from rel \<in> set current_level
             then (set_add (rel_to rel) neighbors, set_add (rel_to rel) next_level)
             else (neighbors, next_level));
          (neighbors2, next_level2) =
            (if rel_to rel \<in> set current_level
             then (set_add (rel_from rel) neighbors1, set_add (rel_from rel) next_level1)
             else (neighbors1, next_level1))
      in scan_relations rest current_level (neighbors2, next_level2))"

text \<open>
  The outer loop \<open>for _ in range(depth)\<close>; the pair is \<open>(neighbors, current_level)\<close>.
  \<open>range(depth)\<close> is empty for \<open>depth \<le> 0\<close>, so the loop runs \<open>nat depth\<close> times.
\<close>

fun bfs_rounds ::
  "nat \<Rightarrow> relation_data list \<Rightarrow> string list \<times> string list
     \<Rightarrow> string list \<times> string list" where
  "bfs_rounds 0 rels (neighbors, current_level) = (neighbors, current_level)"
| "bfs_rounds (Suc n) rels (neighbors, current_level) =
     (let (neighbors', next_level) = scan_relations rels current_level (neighbors, [])
      in bfs_rounds n rels (neighbors', next_level))"

fun neighbor_data ::
  "(string \<times> entity_data) list \<Rightarrow> string list \<Rightarrow> (string \<times> string) list" where
  "neighbor_data ents [] = []"
| "neighbor_data ents (neighbor # rest) =
     (case map_of ents neighbor of
        Some d \<Rightarrow> (neighbor, ent_type d) # neighbor_data ents rest
      | None \<Rightarrow> neighbor_data ents rest)"

definition visited :: "string \<Rightarrow> int \<Rightarrow> knowledge_graph \<Rightarrow> string list" where
  "visited entity depth g =
     set_discard entity (fst (bfs_rounds (nat depth) (relations g) ([], [entity])))"

definition kg_get_neighbors ::
  "string \<Rightarrow> int option \<Rightarrow> knowledge_graph \<Rightarrow> response \<times> knowledge_graph" where
  "kg_get_neighbors entity depth0 g =
     (let depth = get_default depth0 1
      in if \<not> contains_key entity (entities g)
         then (Text (not_found_text entity), g)
         else (NeighborsResponse entity depth
                 (neighbor_data (entities g) (visited entity depth g)), g))"

subsection \<open>kg_stats\<close>

fun count_types :: "string list \<Rightarrow> (string \<times> nat) list \<Rightarrow> (string \<times> nat) list" where
  "count_types [] counts = counts"
| "count_types (t # ts) counts =
     count_types ts (AList.update t (get_default (map_of counts t) 0 + 1) counts)"

definition kg_stats :: "knowledge_graph \<Rightarrow> response \<times> knowledge_graph" where
  "kg_stats g =
     (StatsResponse
        \<lparr>entities_count = length (entities g),
         relations_count = length (relations g),
         entity_types = count_types (map (\<lambda>(k, d). ent_type d) (entities g)) [],
         relation_types = count_types (map rel_relation (relations g)) []\<rparr>, g)"

subsection \<open>call_tool\<close>

definition call_tool ::
  "string \<Rightarrow> arguments \<Rightarrow> string \<Rightarrow> knowledge_graph
     \<Rightarrow> (py_error + response) \<times> knowledge_graph" where
  "call_tool name a now g =
     (if name = ''kg_add_entity'' then
        (case arg_entity a of None \<Rightarrow> (Inl (KeyError ''entity''), g)
         | Some entity_id \<Rightarrow>
        (case arg_type a of None \<Rightarrow> (Inl (KeyError ''type''), g)
         | Some ty \<Rightarrow>
           (let (r, g') = kg_add_entity entity_id ty (arg_properties a) now g
            in (Inr r, g'))))
      else if name = ''kg_add_relation'' then
        (case arg_from_entity a of None \<Rightarrow> (Inl (KeyError ''from_entity''), g)
         | Some from_entity \<Rightarrow>
        (case arg_to_entity a of None \<Rightarrow> (Inl (KeyError ''to_entity''), g)
         | Some to_entity \<Rightarrow>
        (case arg_relation a of None \<Rightarrow> (Inl (KeyError ''relation''), g)
         | Some relation \<Rightarrow>
           (let (r, g') = kg_add_relation from_entity relation to_entity
                            (arg_properties a) now g
            in (Inr r, g')))))
      else if name = ''kg_query'' then
        (case arg_query a of None \<Rightarrow> (Inl (KeyError ''query''), g)
         | Some query \<Rightarrow>
           (let (r, g') = kg_query query (arg_query_type a) (arg_limit a) g
            in (Inr r, g')))
      else if name = ''kg_get_neighbors'' then
        (case arg_entity a of None \<Rightarrow> (Inl (KeyError ''entity''), g)
         | Some entity \<Rightarrow>
           (let (r, g') = kg_get_neighbors entity (arg_depth a) g
            in (Inr r, g')))
      else if name = ''kg_stats'' then
        (let (r, g') = kg_stats g in (Inr r, g'))
      else (Inl (ValueError (''Unknown tool: '' @ name)), g))"

subsection \<open>Histories of the two mutating operations\<close>

datatype op =
  AddEntity string string "props option" string
  | AddRelation string string string "props option" string

fun apply_op :: "op \<Rightarrow> knowledge_graph \<Rightarrow> response \<times> knowledge_graph" where
  "apply_op (AddEntity e t p now) g = kg_add_entity e t p now g"
| "apply_op (AddRelation a r b p now) g = kg_add_relation a r b p now g"

fun run_ops :: "op list \<Rightarrow> knowledge_graph \<Rightarrow> response list \<times> knowledge_graph" where
  "run_ops [] g = ([], g)"
| "run_ops (c # cs) g =
     (let (r, g') = apply_op c g;
          (rs, g'') = run_ops cs g'
      in (r # rs, g''))"

subsection \<open>A running example\<close>

text \<open>
  The end-to-end scenario: three entities and two relations, added to the empty
  graph in this order.
\<close>

definition example_ops :: "op list" where
  "example_ops =
     [AddEntity ''A'' ''person'' None ''t1'',
      AddEntity ''B'' ''person'' None ''t2'',
      AddEntity ''C'' ''concept'' None ''t3'',
      AddRelation ''A'' ''knows'' ''B'' None ''t4'',
      AddRelation ''B'' ''related_to'' ''C'' None ''t5'']"

definition example_graph :: knowledge_graph where
  "example_graph = snd (run_ops example_ops empty_graph)"

text \<open>The argument bag with no key at all.\<close>

definition no_arguments :: arguments where
  "no_arguments =
     \<lparr>arg_entity = None, arg_type = None, arg_properties = None,
      arg_from_entity = None, arg_relation = None, arg_to_entity = None,
      arg_query = None, arg_query_type = None, arg_limit = None, arg_depth = None\<rparr>"

subsection \<open>Notions used to state the properties\<close>

text \<open>
  The insertion invariant of the data model: both ends of every stored relation
  are keys of the entity dict.
\<close>

definition relations_resolve :: "knowledge_graph \<Rightarrow> bool" where
  "relations_resolve g =
     list_all (\<lambda>rel. contains_key (rel_from rel) (entities g) \<and>
                      contains_key (rel_to rel) (entities g)) (relations g)"

text \<open>The entity ids that a history passes to \<open>kg_add_entity\<close>, in order.\<close>

fun added_ids :: "op list \<Rightarrow> string list" where
  "added_ids [] = []"
| "added_ids (AddEntity e t p now # cs) = e # added_ids cs"
| "added_ids (AddRelation a r b p now # cs) = added_ids cs"

text \<open>
  A call of \<open>kg_add_relation\<close> is successful when its response is the confirmation
  text (and not an error text); \<open>successful_add_relations\<close> counts these calls in a
  history, given the responses of its calls.
\<close>

fun relation_added :: "op \<times> response \<Rightarrow> bool" where
  "relation_added (AddRelation a r b p now, resp) = (resp = Text (added_relation_text a r b))"
| "relation_added (AddEntity e t p now, resp) = False"

definition successful_add_relations :: "op list \<Rightarrow> response list \<Rightarrow> nat" where
  "successful_add_relations cs rs = length (filter relation_added (zip cs rs))"

section \<open>Basic facts\<close>

lemma contains_key_iff: "contains_key k d \<longleftrightarrow> k \<in> fst ` set d"
  by (simp add: contains_key_def map_of_eq_None_iff)

lemma length_update:
  "length (AList.update k v d) = (if k \<in> fst ` set d then length d else length d + 1)"
  by (induction d) auto

lemma example_graph_eq:
  "example_graph =
     \<lparr>entities =
        [(''A'', \<lparr>ent_type = ''person'', ent_properties = [], ent_created_at = ''t1''\<rparr>),
         (''B'', \<lparr>ent_type = ''person'', ent_properties = [], ent_created_at = ''t2''\<rparr>),
         (''C'', \<lparr>ent_type = ''concept'', ent_properties = [], ent_created_at = ''t3''\<rparr>)],
      relations =
        [\<lparr>rel_from = ''A'', rel_relation = ''knows'', rel_to = ''B'',
          rel_properties = [], rel_created_at = ''t4''\<rparr>,
         \<lparr>rel_from = ''B'', rel_relation = ''related_to'', rel_to = ''C'',
          rel_properties = [], rel_created_at = ''t5''\<rparr>]\<rparr>"
  by (simp add: example_graph_def example_ops_def empty_graph_def kg_add_entity_def
      kg_add_relation_def get_default_def contains_key_def)

lemma example_run:
  "run_ops example_ops empty_graph =
     ([Text (added_entity_text ''A'' ''person''), Text (added_entity_text ''B'' ''person''),
       Text (added_entity_text ''C'' ''concept''),
       Text (added_relation_text ''A'' ''knows'' ''B''),
       Text (added_relation_text ''B'' ''related_to'' ''C'')], example_graph)"
  unfolding example_graph_def
  by (simp add: example_ops_def empty_graph_def kg_add_entity_def
      kg_add_relation_def get_default_def contains_key_def)

lemma contains_key_update:
  "contains_key k (AList.update e d ents) \<longleftrightarrow> k = e \<or> contains_key k ents"
  by (auto simp: contains_key_iff dom_update)

section \<open>The store: kg_add_entity and kg_add_relation\<close>

text \<open>
  Claim C1. When \<open>from_entity\<close> or \<open>to_entity\<close> is not a key of the entity dict,
  \<open>kg_add_relation\<close> returns the error text that names a missing endpoint (the
  source checks \<open>from_entity\<close> first), and the state after the call is the state
  before it: nothing is appended and the number of relations is the same.
\<close>

theorem add_relation_missing_endpoint:
  "\<not> contains_key from_entity (entities g) \<or> \<not> contains_key to_entity (entities g) \<Longrightarrow>
   (\<exists>e. (e = from_entity \<or> e = to_entity) \<and> \<not> contains_key e (entities g) \<and>
        fst (kg_add_relation from_entity relation to_entity properties now g)
          = Text (not_found_add_first_text e)) \<and>
   snd (kg_add_relation from_entity relation to_entity properties now g) = g \<and>
   length (relations (snd (kg_add_relation from_entity relation to_entity properties now g)))
     = length (relations g)"
  by (auto simp: kg_add_relation_def)

theorem add_relation_missing_endpoint_witness:
  "\<not> contains_key ''Z'' (entities example_graph) \<and>
   fst (kg_add_relation ''A'' ''knows'' ''Z'' None ''t6'' example_graph)
     = Text (not_found_add_first_text ''Z'') \<and>
   snd (kg_add_relation ''A'' ''knows'' ''Z'' None ''t6'' example_graph) = example_graph"
  using add_relation_missing_endpoint [of "''A''" example_graph "''Z''" "''knows''" None "''t6''"]
  by (simp add: example_graph_eq contains_key_def kg_add_relation_def)

text \<open>
  Claim C2. \<open>kg_add_entity\<close> has no failing branch: it returns the confirmation
  text. Afterwards the lookup of \<open>e\<close> in the entity dict gives the record with type
  \<open>t\<close> and properties \<open>p\<close>, whatever was stored under \<open>e\<close> before: a key that \<open>p\<close> does
  not have is not a key of the stored properties (overwrite, no merge). The keys of
  the dict afterwards are the keys before together with \<open>e\<close>, the dict grows by one
  entry exactly when \<open>e\<close> is new, the other entries are as before, and the relations
  are untouched.
\<close>

theorem add_entity_upsert:
  "fst (kg_add_entity e t (Some p) now g) = Text (added_entity_text e t) \<and>
   map_of (entities (snd (kg_add_entity e t (Some p) now g))) e
     = Some \<lparr>ent_type = t, ent_properties = p, ent_created_at = now\<rparr> \<and>
   (\<forall>d k. map_of (entities (snd (kg_add_entity e t (Some p) now g))) e = Some d \<longrightarrow>
      map_of p k = None \<longrightarrow> map_of (ent_properties d) k = None) \<and>
   fst ` set (entities (snd (kg_add_entity e t (Some p) now g)))
     = insert e (fst ` set (entities g)) \<and>
   length (entities (snd (kg_add_entity e t (Some p) now g)))
     = (if contains_key e (entities g) then length (entities g)
        else length (entities g) + 1) \<and>
   (\<forall>e'. e' \<noteq> e \<longrightarrow>
      map_of (entities (snd (kg_add_entity e t (Some p) now g))) e' = map_of (entities g) e') \<and>
   relations (snd (kg_add_entity e t (Some p) now g)) = relations g"
  by (simp add: kg_add_entity_def get_default_def update_conv' dom_update length_update
      contains_key_iff)

theorem add_entity_upsert_witness:
  "map_of (entities example_graph) ''A''
     = Some \<lparr>ent_type = ''person'', ent_properties = [], ent_created_at = ''t1''\<rparr> \<and>
   map_of (entities (snd (kg_add_entity ''A'' ''robot'' (Some [(''age'', JNum 3)]) ''t6''
      example_graph))) ''A''
     = Some \<lparr>ent_type = ''robot'', ent_properties = [(''age'', JNum 3)],
             ent_created_at = ''t6''\<rparr> \<and>
   map_of [(''age'', JNum 3)] ''name'' = None \<and>
   length (entities (snd (kg_add_entity ''A'' ''robot'' (Some [(''age'', JNum 3)]) ''t6''
      example_graph))) = 3"
  using add_entity_upsert [of "''A''" "''robot''" "[(''age'', JNum 3)]" "''t6''" example_graph]
  by (simp add: example_graph_eq contains_key_def)

text \<open>
  Claim C7. When both endpoints are keys of the entity dict, \<open>kg_add_relation\<close>
  returns the confirmation text and appends one record: the number of relations
  grows by exactly one and the entities are untouched. The same call again (at
  the same or at another time) appends a second record with the same endpoints and
  label after the first: the list then holds both, nothing is merged.
\<close>

theorem add_relation_appends:
  "contains_key a (entities g) \<Longrightarrow> contains_key b (entities g) \<Longrightarrow>
   g1 = snd (kg_add_relation a r b p now1 g) \<Longrightarrow>
   g2 = snd (kg_add_relation a r b p now2 g1) \<Longrightarrow>
   fst (kg_add_relation a r b p now1 g) = Text (added_relation_text a r b) \<and>
   relations g1 = relations g @
     [\<lparr>rel_from = a, rel_relation = r, rel_to = b,
       rel_properties = get_default p [], rel_created_at = now1\<rparr>] \<and>
   length (relations g1) = length (relations g) + 1 \<and>
   entities g1 = entities g \<and>
   fst (kg_add_relation a r b p now2 g1) = Text (added_relation_text a r b) \<and>
   relations g2 = relations g @
     [\<lparr>rel_from = a, rel_relation = r, rel_to = b,
       rel_properties = get_default p [], rel_created_at = now1\<rparr>,
      \<lparr>rel_from = a, rel_relation = r, rel_to = b,
       rel_properties = get_default p [], rel_created_at = now2\<rparr>] \<and>
   length (relations g2) = length (relations g) + 2"
  by (simp add: kg_add_relation_def)

theorem add_relation_appends_witness:
  "contains_key ''A'' (entities example_graph) \<and>
   contains_key ''B'' (entities example_graph) \<and>
   length (relations example_graph) = 2 \<and>
   length (relations (snd (kg_add_relation ''A'' ''knows'' ''B'' None ''t6''
     (snd (kg_add_relation ''A'' ''knows'' ''B'' None ''t6'' example_graph))))) = 4"
  using add_relation_appends [of "''A''" example_graph "''B''"
      "snd (kg_add_relation ''A'' ''knows'' ''B'' None ''t6'' example_graph)"
      "''knows''" None "''t6''"
      "snd (kg_add_relation ''A'' ''knows'' ''B'' None ''t6''
         (snd (kg_add_relation ''A'' ''knows'' ''B'' None ''t6'' example_graph)))" "''t6''"]
  by (simp add: example_graph_eq contains_key_def)

section \<open>The read operations\<close>

lemma kg_query_state: "snd (kg_query q qt l g) = g"
  by (simp add: kg_query_def Let_def)

lemma kg_get_neighbors_state: "snd (kg_get_neighbors e d g) = g"
  by (simp add: kg_get_neighbors_def Let_def)

lemma kg_stats_state: "snd (kg_stats g) = g"
  by (simp add: kg_stats_def)

text \<open>
  Claim C10. The branches \<open>kg_query\<close>, \<open>kg_get_neighbors\<close> and \<open>kg_stats\<close> of
  \<open>call_tool\<close> leave the graph as it is, for every state and every argument bag
  (also when a required key is absent and the branch raises KeyError). More
  generally a call under any name other than \<open>kg_add_entity\<close> and
  \<open>kg_add_relation\<close> leaves the graph as it is.
\<close>

theorem read_operations_frame:
  "snd (call_tool ''kg_query'' a now g) = g \<and>
   snd (call_tool ''kg_get_neighbors'' a now g) = g \<and>
   snd (call_tool ''kg_stats'' a now g) = g \<and>
   (\<forall>name. name \<noteq> ''kg_add_entity'' \<and> name \<noteq> ''kg_add_relation'' \<longrightarrow>
      snd (call_tool name a now g) = g)"
  by (simp add: call_tool_def kg_query_state kg_get_neighbors_state kg_stats_state
      split_beta split: option.split)

theorem read_operations_frame_witness:
  "''kg_stats'' \<noteq> ''kg_add_entity'' \<and> ''kg_stats'' \<noteq> ''kg_add_relation'' \<and>
   snd (call_tool ''kg_get_neighbors'' (no_arguments\<lparr>arg_entity := Some ''A''\<rparr>) ''t6''
     example_graph) = example_graph \<and>
   snd (call_tool ''kg_stats'' no_arguments ''t6'' example_graph) = example_graph"
  using read_operations_frame [of "no_arguments\<lparr>arg_entity := Some ''A''\<rparr>" "''t6''"
      example_graph]
    read_operations_frame [of no_arguments "''t6''" example_graph]
  by simp

subsection \<open>kg_query and its limit\<close>

text \<open>
  Claim C5. The claim says that a limit of zero or less gives no result. The
  loops of \<open>kg_query\<close> test the limit only after a match has been appended, so the
  first match is returned whatever the limit: on the example graph the empty query
  with limit 0 returns the entity A, and a relation query with limit -5 returns
  the first matching relation.
\<close>

theorem query_limit_zero_returns_match:
  "fst (kg_query [] (Some ''entity'') (Some 0) example_graph)
     = QueryResponse [] [EntityMatch ''A'' ''person'' []] \<and>
   fst (kg_query ''KNOWS'' (Some ''relation'') (Some (- 5)) example_graph)
     = QueryResponse ''KNOWS'' [RelationMatch ''A'' ''knows'' ''B'']"
  by (simp add: example_graph_eq kg_query_def get_default_def lower_def lower_char_def
      Let_def)

subsection \<open>kg_get_neighbors\<close>

text \<open>
  Claim C4, as stated: a negative depth makes the operation fail with an
  invalid-argument error. It does not: the source never inspects the sign of
  \<open>depth\<close>, \<open>range(depth)\<close> is empty, and the normal response with no neighbor is
  returned.
\<close>

theorem negative_depth_counterexample:
  "(- 1 :: int) < 0 \<and> contains_key ''A'' (entities example_graph) \<and>
   kg_get_neighbors ''A'' (Some (- 1)) example_graph
     = (NeighborsResponse ''A'' (- 1) [], example_graph)"
  by (simp add: example_graph_eq contains_key_def kg_get_neighbors_def get_default_def
      visited_def set_discard_def)

text \<open>
  Claim C4, amended. For every negative depth, \<open>kg_get_neighbors\<close> on an existing
  entity returns the normal response with an empty neighbor list, as for depth 0;
  on an entity that is not stored it returns the not-found error text. The state
  is unchanged in both cases.
\<close>

theorem negative_depth_empty:
  "depth < 0 \<Longrightarrow>
   kg_get_neighbors entity (Some depth) g =
     (if contains_key entity (entities g)
      then (NeighborsResponse entity depth [], g)
      else (Text (not_found_text entity), g))"
  by (simp add: kg_get_neighbors_def get_default_def visited_def set_discard_def)

theorem negative_depth_empty_witness:
  "(- 3 :: int) < 0 \<and>
   kg_get_neighbors ''B'' (Some (- 3)) example_graph
     = (NeighborsResponse ''B'' (- 3) [], example_graph)"
  using negative_depth_empty [of "- 3" "''B''" example_graph]
  by (simp add: example_graph_eq contains_key_def)

subsection \<open>The traversal\<close>

text \<open>
  One pass over the relation list adds to both accumulators every id that a
  relation links, in either direction, to a member of the current level.
\<close>

lemma set_set_add: "set (set_add x s) = insert x (set s)"
  by (auto simp: set_add_def)

lemma distinct_set_add: "distinct s \<Longrightarrow> distinct (set_add x s)"
  by (simp add: set_add_def)

lemma scan_relations_fst:
  "set (fst (scan_relations rels cur (nb, nx))) =
     set nb \<union> {d. \<exists>r\<in>set rels. (rel_from r \<in> set cur \<and> d = rel_to r) \<or>
                                 (rel_to r \<in> set cur \<and> d = rel_from r)}"
proof (induction rels arbitrary: nb nx)
  case Nil
  show ?case by simp
next
  case (Cons rel rest)
  show ?case
    by (simp add: Cons.IH set_set_add split_beta Let_def) blast
qed

lemma scan_relations_snd:
  "set (snd (scan_relations rels cur (nb, nx))) =
     set nx \<union> {d. \<exists>r\<in>set rels. (rel_from r \<in> set cur \<and> d = rel_to r) \<or>
                                 (rel_to r \<in> set cur \<and> d = rel_from r)}"
proof (induction rels arbitrary: nb nx)
  case Nil
  show ?case by simp
next
  case (Cons rel rest)
  show ?case
    by (simp add: Cons.IH set_set_add split_beta Let_def) blast
qed

lemma scan_relations_distinct:
  "distinct nb \<Longrightarrow> distinct (fst (scan_relations rels cur (nb, nx)))"
  by (induction rels arbitrary: nb nx) (simp_all add: distinct_set_add split_beta Let_def)

lemma bfs_rounds_first:
  "bfs_rounds (Suc n) rels st =
     bfs_rounds n rels (scan_relations rels (snd st) (fst st, []))"
  by (cases st) (simp add: split_beta)

lemma bfs_rounds_last:
  "bfs_rounds (Suc n) rels st =
     scan_relations rels (snd (bfs_rounds n rels st)) (fst (bfs_rounds n rels st), [])"
proof (induction n arbitrary: st)
  case 0
  show ?case by (cases st) (simp add: split_beta)
next
  case (Suc n)
  let ?st' = "scan_relations rels (snd st) (fst st, [])"
  have "bfs_rounds (Suc (Suc n)) rels st = bfs_rounds (Suc n) rels ?st'"
    by (rule bfs_rounds_first)
  also have "\<dots> = scan_relations rels (snd (bfs_rounds n rels ?st'))
                     (fst (bfs_rounds n rels ?st'), [])"
    by (rule Suc.IH)
  also have "bfs_rounds n rels ?st' = bfs_rounds (Suc n) rels st"
    by (rule bfs_rounds_first [symmetric])
  finally show ?case .
qed

lemma bfs_rounds_grows:
  "set (fst (bfs_rounds n rels st)) \<subseteq> set (fst (bfs_rounds (Suc n) rels st))"
  unfolding bfs_rounds_last by (simp add: scan_relations_fst)

lemma bfs_rounds_distinct:
  "distinct (fst st) \<Longrightarrow> distinct (fst (bfs_rounds n rels st))"
proof (induction n)
  case 0
  then show ?case by (cases st) simp
next
  case (Suc n)
  then show ?case unfolding bfs_rounds_last by (simp add: scan_relations_distinct)
qed

lemma bfs_rounds_endpoints:
  "set (fst (bfs_rounds n rels st)) \<subseteq>
     set (fst st) \<union> rel_from ` set rels \<union> rel_to ` set rels"
proof (induction n)
  case 0
  show ?case by (cases st) auto
next
  case (Suc n)
  then show ?case unfolding bfs_rounds_last by (auto simp: scan_relations_fst)
qed

lemma neighbor_data_ids:
  "map fst (neighbor_data ents vs) = filter (\<lambda>d. contains_key d ents) vs"
  by (induction vs) (auto simp: contains_key_def split: option.splits)

lemma neighbor_data_set:
  "set (neighbor_data ents vs) =
     {(d, t). d \<in> set vs \<and> (\<exists>x. map_of ents d = Some x \<and> t = ent_type x)}"
  by (induction vs) (auto split: option.splits)

lemma visited_one:
  "set (visited e 1 g) =
     {d. d \<noteq> e \<and> (\<exists>r\<in>set (relations g). (rel_from r = e \<and> rel_to r = d) \<or>
                                           (rel_from r = d \<and> rel_to r = e))}"
  by (auto simp: visited_def set_discard_def scan_relations_fst split_beta)

lemma visited_distinct: "distinct (visited e depth g)"
  by (simp add: visited_def set_discard_def bfs_rounds_distinct distinct_removeAll)

lemma visited_resolve:
  assumes "relations_resolve g"
  shows "\<forall>d\<in>set (visited e depth g). contains_key d (entities g)"
proof
  fix d assume "d \<in> set (visited e depth g)"
  then have "d \<in> set (fst (bfs_rounds (nat depth) (relations g) ([], [e])))"
    by (simp add: visited_def set_discard_def)
  then have "d \<in> rel_from ` set (relations g) \<union> rel_to ` set (relations g)"
    using bfs_rounds_endpoints [of "nat depth" "relations g" "([], [e])"] by auto
  then show "contains_key d (entities g)"
    using assms by (auto simp: relations_resolve_def list_all_iff)
qed

text \<open>
  Claim C3. In a state that satisfies the insertion invariant \<open>relations_resolve\<close>
  (every state reachable from the empty graph does), \<open>kg_get_neighbors\<close> with
  depth 1 on a stored entity \<open>e\<close> returns the normal response whose list has
  no id twice and whose ids are exactly the ids \<open>d \<noteq> e\<close> for which some stored
  relation goes from \<open>e\<close> to \<open>d\<close> or from \<open>d\<close> to \<open>e\<close>; each id is paired with the
  type of its stored record.
\<close>

theorem neighbors_depth_one:
  "contains_key e (entities g) \<Longrightarrow> relations_resolve g \<Longrightarrow>
   \<exists>ns. fst (kg_get_neighbors e (Some 1) g) = NeighborsResponse e 1 ns \<and>
     distinct (map fst ns) \<and>
     set (map fst ns) =
       {d. d \<noteq> e \<and> (\<exists>r\<in>set (relations g). (rel_from r = e \<and> rel_to r = d) \<or>
                                             (rel_from r = d \<and> rel_to r = e))} \<and>
     (\<forall>(d, t)\<in>set ns. \<exists>x. map_of (entities g) d = Some x \<and> t = ent_type x)"
proof -
  assume e: "contains_key e (entities g)" and inv: "relations_resolve g"
  let ?ns = "neighbor_data (entities g) (visited e 1 g)"
  have ids: "map fst ?ns = visited e 1 g"
    using visited_resolve [OF inv, of e 1] by (simp add: neighbor_data_ids)
  have "fst (kg_get_neighbors e (Some 1) g) = NeighborsResponse e 1 ?ns"
    using e by (simp add: kg_get_neighbors_def get_default_def)
  moreover have "distinct (map fst ?ns)"
    by (simp add: ids visited_distinct)
  moreover have "set (map fst ?ns) =
       {d. d \<noteq> e \<and> (\<exists>r\<in>set (relations g). (rel_from r = e \<and> rel_to r = d) \<or>
                                             (rel_from r = d \<and> rel_to r = e))}"
    unfolding ids by (rule visited_one)
  moreover have "\<forall>(d, t)\<in>set ?ns. \<exists>x. map_of (entities g) d = Some x \<and> t = ent_type x"
    by (auto simp: neighbor_data_set)
  ultimately show ?thesis by blast
qed

theorem neighbors_depth_one_witness:
  "contains_key ''B'' (entities example_graph) \<and> relations_resolve example_graph \<and>
   (\<exists>ns. fst (kg_get_neighbors ''B'' (Some 1) example_graph) = NeighborsResponse ''B'' 1 ns \<and>
      set (map fst ns) = {''A'', ''C''})"
proof -
  have k: "contains_key ''B'' (entities example_graph)"
    by (simp add: example_graph_eq contains_key_def)
  have inv: "relations_resolve example_graph"
    by (simp add: relations_resolve_def example_graph_eq contains_key_def)
  have "{d. d \<noteq> ''B'' \<and> (\<exists>r\<in>set (relations example_graph).
           (rel_from r = ''B'' \<and> rel_to r = d) \<or> (rel_from r = d \<and> rel_to r = ''B''))}
        = {''A'', ''C''}"
    by (auto simp: example_graph_eq)
  then show ?thesis
    using neighbors_depth_one [OF k inv] k inv by auto
qed

text \<open>
  Claim C6. For a stored entity \<open>e\<close> and a depth \<open>k \<ge> 1\<close>, both \<open>kg_get_neighbors e k\<close>
  and \<open>kg_get_neighbors e (k - 1)\<close> return the normal response, and every neighbor
  (and so every id) returned for \<open>k - 1\<close> is returned for \<open>k\<close>; for depth 0 the
  neighbor list is empty.
\<close>

theorem neighbors_monotone:
  "1 \<le> k \<Longrightarrow> contains_key e (entities g) \<Longrightarrow>
   \<exists>ns ns'. fst (kg_get_neighbors e (Some k) g) = NeighborsResponse e k ns \<and>
     fst (kg_get_neighbors e (Some (k - 1)) g) = NeighborsResponse e (k - 1) ns' \<and>
     set ns' \<subseteq> set ns \<and> set (map fst ns') \<subseteq> set (map fst ns) \<and>
     fst (kg_get_neighbors e (Some 0) g) = NeighborsResponse e 0 []"
proof -
  assume k: "1 \<le> k" and e: "contains_key e (entities g)"
  let ?ns = "neighbor_data (entities g) (visited e k g)"
  let ?ns' = "neighbor_data (entities g) (visited e (k - 1) g)"
  from k have "nat k = Suc (nat (k - 1))" by simp
  then have "set (visited e (k - 1) g) \<subseteq> set (visited e k g)"
    using bfs_rounds_grows [of "nat (k - 1)" "relations g" "([], [e])"]
    by (auto simp: visited_def set_discard_def)
  then have sub: "set ?ns' \<subseteq> set ?ns"
    by (auto simp: neighbor_data_set)
  then have "set (map fst ?ns') \<subseteq> set (map fst ?ns)" by auto
  moreover have "fst (kg_get_neighbors e (Some k) g) = NeighborsResponse e k ?ns"
    and "fst (kg_get_neighbors e (Some (k - 1)) g) = NeighborsResponse e (k - 1) ?ns'"
    and "fst (kg_get_neighbors e (Some 0) g) = NeighborsResponse e 0 []"
    using e
    by (simp_all add: kg_get_neighbors_def get_default_def visited_def set_discard_def Let_def)
  ultimately show ?thesis using sub by blast
qed

theorem neighbors_monotone_witness:
  "(1::int) \<le> 2 \<and> contains_key ''A'' (entities example_graph) \<and>
   fst (kg_get_neighbors ''A'' (Some 1) example_graph)
     = NeighborsResponse ''A'' 1 [(''B'', ''person'')] \<and>
   fst (kg_get_neighbors ''A'' (Some 2) example_graph)
     = NeighborsResponse ''A'' 2 [(''B'', ''person''), (''C'', ''concept'')] \<and>
   (\<exists>ns ns'. fst (kg_get_neighbors ''A'' (Some 2) example_graph) = NeighborsResponse ''A'' 2 ns \<and>
      fst (kg_get_neighbors ''A'' (Some (2 - 1)) example_graph)
        = NeighborsResponse ''A'' (2 - 1) ns' \<and> set ns' \<subseteq> set ns)"
proof -
  have k: "(1::int) \<le> 2" by simp
  have e: "contains_key ''A'' (entities example_graph)"
    by (simp add: example_graph_eq contains_key_def)
  have ev: "fst (kg_get_neighbors ''A'' (Some 1) example_graph)
       = NeighborsResponse ''A'' 1 [(''B'', ''person'')]"
    "fst (kg_get_neighbors ''A'' (Some 2) example_graph)
       = NeighborsResponse ''A'' 2 [(''B'', ''person''), (''C'', ''concept'')]"
    by (simp_all add: example_graph_eq contains_key_def kg_get_neighbors_def get_default_def
        visited_def set_discard_def set_add_def numeral_2_eq_2)
  from neighbors_monotone [OF k e] k e ev show ?thesis by blast
qed

section \<open>Reachable states\<close>

lemma add_entity_resolve:
  "relations_resolve g \<Longrightarrow> relations_resolve (snd (kg_add_entity e t p now g))"
  by (auto simp: relations_resolve_def kg_add_entity_def list_all_iff contains_key_update)

lemma add_relation_resolve:
  "relations_resolve g \<Longrightarrow> relations_resolve (snd (kg_add_relation a r b p now g))"
  by (auto simp: relations_resolve_def kg_add_relation_def list_all_iff)

lemma apply_op_resolve:
  "relations_resolve g \<Longrightarrow> relations_resolve (snd (apply_op c g))"
  by (cases c) (simp_all add: add_entity_resolve add_relation_resolve)

lemma run_ops_resolve:
  "relations_resolve g \<Longrightarrow> relations_resolve (snd (run_ops cs g))"
proof (induction cs arbitrary: g)
  case Nil
  then show ?case by simp
next
  case (Cons c cs)
  from Cons.prems have "relations_resolve (snd (apply_op c g))"
    by (rule apply_op_resolve)
  then have "relations_resolve (snd (run_ops cs (snd (apply_op c g))))"
    by (rule Cons.IH)
  then show ?case by (simp add: split_beta)
qed

lemma empty_resolve: "relations_resolve empty_graph"
  by (simp add: relations_resolve_def empty_graph_def)

text \<open>
  Claim C9. In the state reached from the empty graph by any sequence of
  \<open>kg_add_entity\<close> and \<open>kg_add_relation\<close> calls, both ends of every stored relation
  are keys of the entity dict. Hence the test \<open>neighbor in entities\<close> at the end of
  \<open>kg_get_neighbors\<close> never drops an id: the ids of the returned neighbors are the
  visited ids, for every start entity and depth.
\<close>

theorem reachable_relations_resolve:
  "(\<forall>rel\<in>set (relations (snd (run_ops cs empty_graph))).
      contains_key (rel_from rel) (entities (snd (run_ops cs empty_graph))) \<and>
      contains_key (rel_to rel) (entities (snd (run_ops cs empty_graph)))) \<and>
   (\<forall>e depth.
      map fst (neighbor_data (entities (snd (run_ops cs empty_graph)))
                 (visited e depth (snd (run_ops cs empty_graph))))
        = visited e depth (snd (run_ops cs empty_graph)))"
proof -
  let ?g = "snd (run_ops cs empty_graph)"
  have inv: "relations_resolve ?g"
    using empty_resolve by (rule run_ops_resolve)
  then have "\<forall>rel\<in>set (relations ?g).
      contains_key (rel_from rel) (entities ?g) \<and> contains_key (rel_to rel) (entities ?g)"
    by (simp add: relations_resolve_def list_all_iff)
  moreover have "\<forall>e depth. map fst (neighbor_data (entities ?g) (visited e depth ?g))
        = visited e depth ?g"
    using visited_resolve [OF inv] by (simp add: neighbor_data_ids)
  ultimately show ?thesis by blast
qed

theorem reachable_relations_resolve_witness:
  "\<lparr>rel_from = ''B'', rel_relation = ''related_to'', rel_to = ''C'',
     rel_properties = [], rel_created_at = ''t5''\<rparr> \<in> set (relations example_graph) \<and>
   contains_key ''B'' (entities example_graph) \<and>
   contains_key ''C'' (entities example_graph) \<and>
   map fst (neighbor_data (entities example_graph) (visited ''A'' 2 example_graph))
     = visited ''A'' 2 example_graph"
  using reachable_relations_resolve [of example_ops]
  by (simp add: example_graph_def [symmetric]) (simp add: example_graph_eq)

subsection \<open>kg_stats on reachable states\<close>

lemma run_ops_length: "length (fst (run_ops cs g)) = length cs"
  by (induction cs arbitrary: g) (simp_all add: split_beta)

lemma add_relation_succeeded:
  "fst (kg_add_relation a r b p now g) = Text (added_relation_text a r b) \<longleftrightarrow>
     contains_key a (entities g) \<and> contains_key b (entities g)"
  by (simp add: kg_add_relation_def not_found_add_first_text_def added_relation_text_def)

lemma apply_op_relations:
  "length (relations (snd (apply_op c g))) =
     length (relations g) + (if relation_added (c, fst (apply_op c g)) then 1 else 0)"
proof (cases c)
  case (AddEntity e t p now)
  then show ?thesis by (simp add: kg_add_entity_def)
next
  case (AddRelation a r b p now)
  then show ?thesis
    by (simp add: add_relation_succeeded) (simp add: kg_add_relation_def)
qed

lemma run_ops_relations:
  "length (relations (snd (run_ops cs g))) =
     length (relations g) + successful_add_relations cs (fst (run_ops cs g))"
proof (induction cs arbitrary: g)
  case Nil
  show ?case by (simp add: successful_add_relations_def)
next
  case (Cons c cs)
  show ?case
    using Cons.IH [of "snd (apply_op c g)"] apply_op_relations [of c g]
    by (simp add: split_beta successful_add_relations_def)
qed

lemma apply_op_keys:
  "fst ` set (entities (snd (apply_op c g))) = fst ` set (entities g) \<union> set (added_ids [c])"
  by (cases c) (auto simp: kg_add_entity_def kg_add_relation_def dom_update)

lemma apply_op_distinct:
  "distinct (map fst (entities g)) \<Longrightarrow> distinct (map fst (entities (snd (apply_op c g))))"
  by (cases c) (auto simp: kg_add_entity_def kg_add_relation_def distinct_update)

lemma added_ids_Cons: "set (added_ids (c # cs)) = set (added_ids [c]) \<union> set (added_ids cs)"
  by (cases c) auto

lemma run_ops_keys:
  "fst ` set (entities (snd (run_ops cs g))) = fst ` set (entities g) \<union> set (added_ids cs)"
proof (induction cs arbitrary: g)
  case Nil
  show ?case by simp
next
  case (Cons c cs)
  show ?case
    using Cons.IH [of "snd (apply_op c g)"] apply_op_keys [of c g] added_ids_Cons [of c cs]
    by (simp add: split_beta Un_assoc)
qed

lemma run_ops_distinct:
  "distinct (map fst (entities g)) \<Longrightarrow> distinct (map fst (entities (snd (run_ops cs g))))"
proof (induction cs arbitrary: g)
  case Nil
  then show ?case by simp
next
  case (Cons c cs)
  from Cons.prems have "distinct (map fst (entities (snd (apply_op c g))))"
    by (rule apply_op_distinct)
  then have "distinct (map fst (entities (snd (run_ops cs (snd (apply_op c g))))))"
    by (rule Cons.IH)
  then show ?case by (simp add: split_beta)
qed

lemma run_ops_entities_count:
  "length (entities (snd (run_ops cs empty_graph))) = card (set (added_ids cs))"
proof -
  let ?g = "snd (run_ops cs empty_graph)"
  have "distinct (map fst (entities ?g))"
    by (rule run_ops_distinct) (simp add: empty_graph_def)
  then have "length (entities ?g) = card (fst ` set (entities ?g))"
    using distinct_card [of "map fst (entities ?g)"] by simp
  also have "fst ` set (entities ?g) = set (added_ids cs)"
    using run_ops_keys [of cs empty_graph] by (simp add: empty_graph_def)
  finally show ?thesis .
qed

lemma count_types_lookup:
  "map_of (count_types ts counts) t =
     (if count_list ts t = 0 then map_of counts t
      else Some (get_default (map_of counts t) 0 + count_list ts t))"
  by (induction ts arbitrary: counts) (auto simp: update_conv' get_default_def)

lemma count_list_filter: "count_list (map f xs) t = length (filter (\<lambda>x. f x = t) xs)"
  by (induction xs) auto

text \<open>
  Claim C8. Let \<open>g\<close> be the state reached from the empty graph by a history \<open>cs\<close> of
  \<open>kg_add_entity\<close> and \<open>kg_add_relation\<close> calls, with responses \<open>rs\<close>. Then
  \<open>kg_stats\<close> returns an object with four fields (the source names them
  \<open>entities_count\<close>, \<open>relations_count\<close>, \<open>entity_types\<close> and \<open>relation_types\<close>; the
  specification calls them entity_count, relation_count, entity_type_histogram
  and relation_label_histogram): the number of distinct ids that the history
  added, the number of successful \<open>kg_add_relation\<close> calls of the history, a dict
  that maps each type to the number of stored entities of that type, and a dict
  that maps each label to the number of stored relations with that label (a
  type or label that occurs nowhere is not a key).
\<close>

theorem stats_counts:
  "run_ops cs empty_graph = (rs, g) \<Longrightarrow>
   \<exists>st. kg_stats g = (StatsResponse st, g) \<and>
     entities_count st = card (set (added_ids cs)) \<and>
     relations_count st = successful_add_relations cs rs \<and>
     (\<forall>t. map_of (entity_types st) t =
        (if length (filter (\<lambda>(k, d). ent_type d = t) (entities g)) = 0 then None
         else Some (length (filter (\<lambda>(k, d). ent_type d = t) (entities g))))) \<and>
     (\<forall>l. map_of (relation_types st) l =
        (if length (filter (\<lambda>rel. rel_relation rel = l) (relations g)) = 0 then None
         else Some (length (filter (\<lambda>rel. rel_relation rel = l) (relations g)))))"
proof -
  assume run: "run_ops cs empty_graph = (rs, g)"
  then have g: "g = snd (run_ops cs empty_graph)" and rs: "rs = fst (run_ops cs empty_graph)"
    by simp_all
  let ?st = "\<lparr>entities_count = length (entities g),
         relations_count = length (relations g),
         entity_types = count_types (map (\<lambda>(k, d). ent_type d) (entities g)) [],
         relation_types = count_types (map rel_relation (relations g)) []\<rparr>"
  have "kg_stats g = (StatsResponse ?st, g)"
    by (simp add: kg_stats_def)
  moreover have "entities_count ?st = card (set (added_ids cs))"
    by (simp add: g run_ops_entities_count)
  moreover have "relations_count ?st = successful_add_relations cs rs"
    using run_ops_relations [of cs empty_graph] by (simp add: g rs empty_graph_def)
  moreover have "\<forall>t. map_of (entity_types ?st) t =
        (if length (filter (\<lambda>(k, d). ent_type d = t) (entities g)) = 0 then None
         else Some (length (filter (\<lambda>(k, d). ent_type d = t) (entities g))))"
    by (simp add: count_types_lookup count_list_filter get_default_def case_prod_unfold)
  moreover have "\<forall>l. map_of (relation_types ?st) l =
        (if length (filter (\<lambda>rel. rel_relation rel = l) (relations g)) = 0 then None
         else Some (length (filter (\<lambda>rel. rel_relation rel = l) (relations g))))"
    by (simp add: count_types_lookup count_list_filter get_default_def)
  ultimately show ?thesis by blast
qed

theorem stats_counts_witness:
  "run_ops example_ops empty_graph =
     ([Text (added_entity_text ''A'' ''person''), Text (added_entity_text ''B'' ''person''),
       Text (added_entity_text ''C'' ''concept''),
       Text (added_relation_text ''A'' ''knows'' ''B''),
       Text (added_relation_text ''B'' ''related_to'' ''C'')], example_graph) \<and>
   (\<exists>st. kg_stats example_graph = (StatsResponse st, example_graph) \<and>
      entities_count st = 3 \<and> relations_count st = 2 \<and>
      map_of (entity_types st) ''person'' = Some 2 \<and>
      map_of (entity_types st) ''concept'' = Some 1 \<and>
      map_of (entity_types st) ''event'' = None \<and>
      map_of (relation_types st) ''knows'' = Some 1)"
proof -
  have c: "card (set (added_ids example_ops)) = 3"
    by (simp add: example_ops_def)
  have r: "successful_add_relations example_ops
     [Text (added_entity_text ''A'' ''person''), Text (added_entity_text ''B'' ''person''),
       Text (added_entity_text ''C'' ''concept''),
       Text (added_relation_text ''A'' ''knows'' ''B''),
       Text (added_relation_text ''B'' ''related_to'' ''C'')] = 2"
    by (simp add: example_ops_def successful_add_relations_def)
  from stats_counts [OF example_run] obtain st where
    st: "kg_stats example_graph = (StatsResponse st, example_graph)"
      "entities_count st = card (set (added_ids example_ops))"
      "relations_count st = successful_add_relations example_ops
     [Text (added_entity_text ''A'' ''person''), Text (added_entity_text ''B'' ''person''),
       Text (added_entity_text ''C'' ''concept''),
       Text (added_relation_text ''A'' ''knows'' ''B''),
       Text (added_relation_text ''B'' ''related_to'' ''C'')]"
      "\<And>t. map_of (entity_types st) t =
        (if length (filter (\<lambda>(k, d). ent_type d = t) (entities example_graph)) = 0 then None
         else Some (length (filter (\<lambda>(k, d). ent_type d = t) (entities example_graph))))"
      "\<And>l. map_of (relation_types st) l =
        (if length (filter (\<lambda>rel. rel_relation rel = l) (relations example_graph)) = 0 then None
         else Some (length (filter (\<lambda>rel. rel_relation rel = l) (relations example_graph))))"
    by blast
  have "map_of (entity_types st) ''person'' = Some 2"
    "map_of (entity_types st) ''concept'' = Some 1"
    "map_of (entity_types st) ''event'' = None"
    "map_of (relation_types st) ''knows'' = Some 1"
    by (simp_all add: st(4,5) example_graph_eq)
  with st(1,2,3) c r example_run show ?thesis by auto
qed

end
